theory Spec2Isabelle
  imports Main "HOL-Library.Word"
begin

section \<open>The sign-in page (\<open>src/page/auth/Sign-in.tsx\<close>)\<close>

text \<open>
  The component \<open>SignIn\<close> binds a two-field form to a login mutation.  Its own code
  is the schema \<open>formSchema\<close>, the submit handler \<open>onSubmit\<close> and the two callbacks
  \<open>onSuccess\<close> and \<open>onError\<close>.  Everything else it calls belongs to the platform
  (\<open>decodeURIComponent\<close>, \<open>URLSearchParams\<close>, \<open>String.prototype.trim\<close>, template
  literals, property reads) or to its libraries (zod, react-hook-form, TanStack
  Query, react-router); those are
  embedded here only as far as the component uses them, each next to the line of
  the source that calls it.
\<close>

subsection \<open>JavaScript strings and values\<close>

text \<open>
  A JavaScript string is a sequence of 16-bit code units.  \<open>js\<close> writes an ASCII
  literal of the source as such a sequence.
\<close>

type_synonym code_unit = "16 word"
type_synonym jsstring = "code_unit list"

definition js :: "string \<Rightarrow> jsstring" where
  "js s = map of_char s"

text \<open>
  The values the callbacks receive are parsed response bodies and rejection
  reasons: \<open>undefined\<close>, \<open>null\<close>, booleans, strings and plain objects.  Numbers
  and arrays are left out: the component converts no number to text, and no
  statement below is about them.
\<close>

datatype jsval =
    JUndefined
  | JNull
  | JBool bool
  | JString jsstring
  | JObject "jsstring \<Rightarrow> jsval option"

datatype js_error = TypeError | URIError

definition nullish :: "jsval \<Rightarrow> bool" where
  "nullish v = (case v of JUndefined \<Rightarrow> True | JNull \<Rightarrow> True | _ \<Rightarrow> False)"

text \<open>
  Reading a property of a value that is neither \<open>undefined\<close> nor \<open>null\<close>.  A plain
  object answers with its own field or \<open>undefined\<close>.  A primitive answers from its
  prototype; the three names the component reads (\<open>user\<close>, \<open>currentWorkspace\<close>,
  \<open>message\<close>) are defined by no built-in prototype, so the answer is \<open>undefined\<close>.
\<close>

definition own_prop :: "jsval \<Rightarrow> jsstring \<Rightarrow> jsval" where
  "own_prop v k =
     (case v of
        JObject fields \<Rightarrow> (case fields k of None \<Rightarrow> JUndefined | Some x \<Rightarrow> x)
      | _ \<Rightarrow> JUndefined)"

text \<open>\<open>v.k\<close> raises a TypeError on \<open>undefined\<close> and \<open>null\<close>.\<close>

definition get_prop :: "jsval \<Rightarrow> jsstring \<Rightarrow> js_error + jsval" where
  "get_prop v k = (if nullish v then Inl TypeError else Inr (own_prop v k))"

text \<open>\<open>v?.k\<close> is \<open>undefined\<close> on \<open>undefined\<close> and \<open>null\<close>.\<close>

definition get_prop_opt :: "jsval \<Rightarrow> jsstring \<Rightarrow> jsval" where
  "get_prop_opt v k = (if nullish v then JUndefined else own_prop v k)"

text \<open>
  The conversion a template literal applies to an interpolated value
  (\<open>ToString\<close>); a plain object prints through \<open>Object.prototype.toString\<close>.
\<close>

fun ToString :: "jsval \<Rightarrow> jsstring" where
  "ToString JUndefined = js ''undefined''"
| "ToString JNull = js ''null''"
| "ToString (JBool b) = (if b then js ''true'' else js ''false'')"
| "ToString (JString s) = s"
| "ToString (JObject fields) = js ''[object Object]''"

subsection \<open>\<open>decodeURIComponent\<close>\<close>

text \<open>
  The abstract operation \<open>Decode\<close> of ECMAScript with an empty set of preserved
  escapes.  A \<open>%\<close> must be followed by two hexadecimal digits; an octet with the
  high bit set starts a UTF-8 sequence whose other octets must be escapes too;
  anything else raises a URIError.
\<close>

definition hex_digit :: "code_unit \<Rightarrow> nat option" where
  "hex_digit c =
     (if 0x30 \<le> c \<and> c \<le> 0x39 then Some (unat c - 0x30)
      else if 0x41 \<le> c \<and> c \<le> 0x46 then Some (unat c - 0x41 + 10)
      else if 0x61 \<le> c \<and> c \<le> 0x66 then Some (unat c - 0x61 + 10)
      else None)"

definition ParseHexOctet :: "code_unit \<Rightarrow> code_unit \<Rightarrow> nat option" where
  "ParseHexOctet h1 h2 =
     (case hex_digit h1 of
        None \<Rightarrow> None
      | Some a \<Rightarrow> (case hex_digit h2 of None \<Rightarrow> None | Some b \<Rightarrow> Some (16 * a + b)))"

text \<open>The number of leading 1 bits of an octet.\<close>

definition leading_ones :: "nat \<Rightarrow> nat" where
  "leading_ones b =
     (if b < 0x80 then 0 else if b < 0xC0 then 1 else if b < 0xE0 then 2
      else if b < 0xF0 then 3 else if b < 0xF8 then 4 else if b < 0xFC then 5
      else if b < 0xFE then 6 else if b < 0xFF then 7 else 8)"

text \<open>
  The \<open>j\<close> continuation escapes after the first octet of a sequence: each is a
  \<open>%\<close> and two hexadecimal digits.  The result is the octets and the rest of the
  string.
\<close>

fun continuation :: "nat \<Rightarrow> jsstring \<Rightarrow> (nat list \<times> jsstring) option" where
  "continuation 0 s = Some ([], s)"
| "continuation (Suc j) (p # h1 # h2 # s) =
     (if p \<noteq> 0x25 then None
      else case ParseHexOctet h1 h2 of
             None \<Rightarrow> None
           | Some b \<Rightarrow> (case continuation j s of
                         None \<Rightarrow> None
                       | Some (bs, r) \<Rightarrow> Some (b # bs, r)))"
| "continuation (Suc j) s = None"

text \<open>
  The code point of a UTF-8 sequence of two to four octets, when the sequence is
  well formed: continuation octets in \<open>80..BF\<close>, no overlong form, no surrogate,
  nothing above \<open>10FFFF\<close>.
\<close>

definition is_cont :: "nat \<Rightarrow> bool" where
  "is_cont b = (0x80 \<le> b \<and> b < 0xC0)"

definition scalar_in :: "nat \<Rightarrow> nat \<Rightarrow> nat option" where
  "scalar_in lo v =
     (if v < lo \<or> 0x10FFFF < v \<or> (0xD800 \<le> v \<and> v \<le> 0xDFFF) then None else Some v)"

fun utf8_code_point :: "nat list \<Rightarrow> nat option" where
  "utf8_code_point [b0, b1] =
     (if is_cont b1 then scalar_in 0x80 ((b0 - 0xC0) * 0x40 + (b1 - 0x80)) else None)"
| "utf8_code_point [b0, b1, b2] =
     (if is_cont b1 \<and> is_cont b2
      then scalar_in 0x800 ((b0 - 0xE0) * 0x1000 + (b1 - 0x80) * 0x40 + (b2 - 0x80))
      else None)"
| "utf8_code_point [b0, b1, b2, b3] =
     (if is_cont b1 \<and> is_cont b2 \<and> is_cont b3
      then scalar_in 0x10000
             ((b0 - 0xF0) * 0x40000 + (b1 - 0x80) * 0x1000 + (b2 - 0x80) * 0x40 + (b3 - 0x80))
      else None)"
| "utf8_code_point bs = None"

definition UTF16EncodeCodePoint :: "nat \<Rightarrow> jsstring" where
  "UTF16EncodeCodePoint cp =
     (if cp \<le> 0xFFFF then [of_nat cp]
      else [of_nat ((cp - 0x10000) div 0x400 + 0xD800),
            of_nat ((cp - 0x10000) mod 0x400 + 0xDC00)])"

definition append_result :: "jsstring \<Rightarrow> js_error + jsstring \<Rightarrow> js_error + jsstring" where
  "append_result S r = (case r of Inl e \<Rightarrow> Inl e | Inr R \<Rightarrow> Inr (S @ R))"

function Decode :: "jsstring \<Rightarrow> js_error + jsstring" where
  "Decode [] = Inr []"
| "Decode (c # s) =
     (if c \<noteq> 0x25 then append_result [c] (Decode s)
      else case s of
             h1 # h2 # s' \<Rightarrow>
               (case ParseHexOctet h1 h2 of
                  None \<Rightarrow> Inl URIError
                | Some b \<Rightarrow>
                    (if leading_ones b = 0 then append_result [of_nat b] (Decode s')
                     else if leading_ones b = 1 \<or> 4 < leading_ones b then Inl URIError
                     else case continuation (leading_ones b - 1) s' of
                            None \<Rightarrow> Inl URIError
                          | Some (bs, s'') \<Rightarrow>
                              (case utf8_code_point (b # bs) of
                                 None \<Rightarrow> Inl URIError
                               | Some v \<Rightarrow> append_result (UTF16EncodeCodePoint v) (Decode s''))))
           | _ \<Rightarrow> Inl URIError)"
  by pat_completeness auto
termination
proof -
  have shorter: "length r \<le> length t"
    if "continuation j t = Some (os, r)" for j t os r
    using that
  proof (induction j t arbitrary: os r rule: continuation.induct)
    case (2 j p h1 h2 s)
    then show ?case
      by (fastforce split: if_splits option.splits)
  qed simp_all
  show ?thesis
    by (relation "measure length") (auto dest: shorter)
qed

definition decodeURIComponent :: "jsstring \<Rightarrow> js_error + jsstring" where
  "decodeURIComponent s = Decode s"

subsection \<open>\<open>searchParams.get\<close>\<close>

text \<open>
  \<^verbatim>\<open>
  const [searchParams] = useSearchParams();
  const returnUrl = searchParams.get("returnUrl");
  \<close>
  \<open>useSearchParams\<close> of react-router gives \<open>new URLSearchParams(location.search)\<close>.
  The constructor drops a leading \<open>?\<close> and runs the URL standard's parser on the
  UTF-8 bytes of the rest: it splits at \<open>&\<close>, splits each piece at its first
  \<open>=\<close>, turns \<open>+\<close> into a space, percent-decodes name and value (a \<open>%\<close> that is
  not followed by two hexadecimal digits stays as it is) and decodes the bytes as
  UTF-8, with U+FFFD for every malformed part.  \<open>get\<close> answers with the value of
  the first pair of the given name, or \<open>null\<close>.
\<close>

definition is_surrogate :: "code_unit \<Rightarrow> bool" where
  "is_surrogate c = (0xD800 \<le> c \<and> c \<le> 0xDFFF)"

fun scalar_values :: "jsstring \<Rightarrow> nat list" where
  "scalar_values [] = []"
| "scalar_values [c] = [if is_surrogate c then 0xFFFD else unat c]"
| "scalar_values (c # d # s) =
     (if 0xD800 \<le> c \<and> c \<le> 0xDBFF \<and> 0xDC00 \<le> d \<and> d \<le> 0xDFFF
      then (0x10000 + (unat c - 0xD800) * 0x400 + (unat d - 0xDC00)) # scalar_values s
      else (if is_surrogate c then 0xFFFD else unat c) # scalar_values (d # s))"

definition utf8_encode :: "nat \<Rightarrow> nat list" where
  "utf8_encode cp =
     (if cp < 0x80 then [cp]
      else if cp < 0x800 then [0xC0 + cp div 0x40, 0x80 + cp mod 0x40]
      else if cp < 0x10000
      then [0xE0 + cp div 0x1000, 0x80 + cp div 0x40 mod 0x40, 0x80 + cp mod 0x40]
      else [0xF0 + cp div 0x40000, 0x80 + cp div 0x1000 mod 0x40,
            0x80 + cp div 0x40 mod 0x40, 0x80 + cp mod 0x40])"

fun percent_decode :: "nat list \<Rightarrow> nat list" where
  "percent_decode (b # h1 # h2 # bs) =
     (if b = 0x25
      then (case ParseHexOctet (of_nat h1) (of_nat h2) of
              None \<Rightarrow> b # percent_decode (h1 # h2 # bs)
            | Some v \<Rightarrow> v # percent_decode bs)
      else b # percent_decode (h1 # h2 # bs))"
| "percent_decode bs = bs"

text \<open>
  The UTF-8 decoder of the Encoding standard, as \<open>utf8_decode cp needed lower upper\<close>:
  \<open>needed\<close> continuation bytes are still due for the code point \<open>cp\<close>, and the
  next one must lie between \<open>lower\<close> and \<open>upper\<close>.  A byte out of place yields
  U+FFFD and is read again as the start of a sequence.
\<close>

fun utf8_decode :: "nat \<Rightarrow> nat \<Rightarrow> nat \<Rightarrow> nat \<Rightarrow> nat list \<Rightarrow> nat list" where
  "utf8_decode cp 0 lower upper [] = []"
| "utf8_decode cp (Suc n) lower upper [] = [0xFFFD]"
| "utf8_decode cp 0 lower upper (b # bs) =
     (if b < 0x80 then b # utf8_decode 0 0 0x80 0xBF bs
      else if 0xC2 \<le> b \<and> b \<le> 0xDF then utf8_decode (b mod 0x20) 1 0x80 0xBF bs
      else if 0xE0 \<le> b \<and> b \<le> 0xEF
      then utf8_decode (b mod 0x10) 2 (if b = 0xE0 then 0xA0 else 0x80)
             (if b = 0xED then 0x9F else 0xBF) bs
      else if 0xF0 \<le> b \<and> b \<le> 0xF4
      then utf8_decode (b mod 8) 3 (if b = 0xF0 then 0x90 else 0x80)
             (if b = 0xF4 then 0x8F else 0xBF) bs
      else 0xFFFD # utf8_decode 0 0 0x80 0xBF bs)"
| "utf8_decode cp (Suc n) lower upper (b # bs) =
     (if b < lower \<or> upper < b then 0xFFFD # utf8_decode 0 0 0x80 0xBF (b # bs)
      else if n = 0 then (cp * 0x40 + b mod 0x40) # utf8_decode 0 0 0x80 0xBF bs
      else utf8_decode (cp * 0x40 + b mod 0x40) n 0x80 0xBF bs)"

definition form_decode :: "nat list \<Rightarrow> jsstring" where
  "form_decode bytes =
     concat (map UTF16EncodeCodePoint
       (utf8_decode 0 0 0x80 0xBF
          (percent_decode (map (\<lambda>b. if b = 0x2B then 0x20 else b) bytes))))"

fun sequences :: "nat list \<Rightarrow> nat list list" where
  "sequences [] = [[]]"
| "sequences (b # bs) =
     (if b = 0x26 then [] # sequences bs
      else case sequences bs of
             [] \<Rightarrow> [[b]]
           | piece # pieces \<Rightarrow> (b # piece) # pieces)"

definition URLSearchParams :: "jsstring \<Rightarrow> (jsstring \<times> jsstring) list" where
  "URLSearchParams init =
     map (\<lambda>piece. (form_decode (takeWhile (\<lambda>b. b \<noteq> 0x3D) piece),
                    form_decode (drop 1 (dropWhile (\<lambda>b. b \<noteq> 0x3D) piece))))
       (filter (\<lambda>piece. piece \<noteq> [])
          (sequences (concat (map utf8_encode
             (scalar_values (case init of
                               [] \<Rightarrow> []
                             | c # s \<Rightarrow> if c = 0x3F then s else c # s))))))"

definition searchParams_get :: "jsstring \<Rightarrow> jsstring \<Rightarrow> jsstring option" where
  "searchParams_get search name = map_of (URLSearchParams search) name"

subsection \<open>\<open>String.prototype.trim\<close>\<close>

text \<open>
  \<open>trim\<close> removes the code units of the ECMAScript productions WhiteSpace and
  LineTerminator from both ends of a string.
\<close>

definition is_white_space :: "code_unit \<Rightarrow> bool" where
  "is_white_space c =
     (c = 0x09 \<or> c = 0x0A \<or> c = 0x0B \<or> c = 0x0C \<or> c = 0x0D \<or> c = 0x20 \<or> c = 0xA0
      \<or> c = 0x1680 \<or> (0x2000 \<le> c \<and> c \<le> 0x200A) \<or> c = 0x2028 \<or> c = 0x2029
      \<or> c = 0x202F \<or> c = 0x205F \<or> c = 0x3000 \<or> c = 0xFEFF)"

definition trim :: "jsstring \<Rightarrow> jsstring" where
  "trim s = rev (dropWhile is_white_space (rev (dropWhile is_white_space s)))"

text \<open>A string that \<open>trim\<close> would shorten: white space at its first or last place.\<close>

definition padded :: "jsstring \<Rightarrow> bool" where
  "padded s = (s \<noteq> [] \<and> (is_white_space (hd s) \<or> is_white_space (last s)))"

subsection \<open>The form record and its schema\<close>

text \<open>
  \<^verbatim>\<open>
  const formSchema = z.object({
    email: z.string().trim().email("Invalid email address").min(1, {
      message: "Workspace name is required",
    }),
    password: z.string().trim().min(1, {
      message: "Password is required",
    }),
  });
  \<close>
  A zod string schema is the list of its checks in the order they were chained.
  Parsing runs every check in that order on the current data: \<open>trim\<close> replaces the
  data, \<open>email\<close> and \<open>min\<close> record an issue when they fail and go on.  The address
  pattern of \<open>email\<close> is zod's own and not part of the sources, so the parser takes
  it as the parameter \<open>emailRegex\<close>.
\<close>

record form_values =
  email :: jsstring
  password :: jsstring

datatype field_name = Email | Password

datatype zod_check = ZTrim | ZEmail jsstring | ZMin nat jsstring

fun zod_string :: "(jsstring \<Rightarrow> bool) \<Rightarrow> zod_check list \<Rightarrow> jsstring \<Rightarrow> jsstring list \<times> jsstring" where
  "zod_string emailRegex [] data = ([], data)"
| "zod_string emailRegex (ZTrim # checks) data = zod_string emailRegex checks (trim data)"
| "zod_string emailRegex (ZEmail message # checks) data =
     (case zod_string emailRegex checks data of
        (issues, out) \<Rightarrow> ((if emailRegex data then [] else [message]) @ issues, out))"
| "zod_string emailRegex (ZMin n message # checks) data =
     (case zod_string emailRegex checks data of
        (issues, out) \<Rightarrow> ((if length data < n then [message] else []) @ issues, out))"

definition formSchema :: "field_name \<Rightarrow> zod_check list" where
  "formSchema f =
     (case f of
        Email \<Rightarrow> [ZTrim, ZEmail (js ''Invalid email address''),
                  ZMin 1 (js ''Workspace name is required'')]
      | Password \<Rightarrow> [ZTrim, ZMin 1 (js ''Password is required'')])"

text \<open>
  \<open>zodResolver(formSchema)\<close>: the parsed values when no check raised an issue,
  otherwise for each field the message of its first issue.
\<close>

definition first_issue :: "jsstring list \<Rightarrow> jsstring option" where
  "first_issue issues = (case issues of [] \<Rightarrow> None | m # _ \<Rightarrow> Some m)"

definition zodResolver :: "(jsstring \<Rightarrow> bool) \<Rightarrow> form_values \<Rightarrow> (field_name \<Rightarrow> jsstring option) + form_values" where
  "zodResolver emailRegex values =
     (case zod_string emailRegex (formSchema Email) (email values) of
        (email_issues, e) \<Rightarrow>
          (case zod_string emailRegex (formSchema Password) (password values) of
             (password_issues, p) \<Rightarrow>
               if email_issues = [] \<and> password_issues = []
               then Inr \<lparr>email = e, password = p\<rparr>
               else Inl (\<lambda>f. case f of
                               Email \<Rightarrow> first_issue email_issues
                             | Password \<Rightarrow> first_issue password_issues)))"

text \<open>
  The address pattern of zod 3, for evaluating the schema on concrete input:
  \<^verbatim>\<open>/^(?!\.)(?!.*\.\.)([A-Z0-9_'+\-\.]*)[A-Z0-9_+-]@([A-Z0-9][A-Z0-9\-]*\.)+[A-Z]{2,}$/i\<close>
  The string is one local part, one \<open>@\<close> and a domain of at least two labels; it
  does not begin with a dot and has no two dots in a row.
\<close>

definition is_letter :: "code_unit \<Rightarrow> bool" where
  "is_letter c = ((0x41 \<le> c \<and> c \<le> 0x5A) \<or> (0x61 \<le> c \<and> c \<le> 0x7A))"

definition is_alnum :: "code_unit \<Rightarrow> bool" where
  "is_alnum c = (is_letter c \<or> (0x30 \<le> c \<and> c \<le> 0x39))"

definition local_char :: "code_unit \<Rightarrow> bool" where
  "local_char c = (is_alnum c \<or> c = 0x5F \<or> c = 0x27 \<or> c = 0x2B \<or> c = 0x2D \<or> c = 0x2E)"

definition local_end :: "code_unit \<Rightarrow> bool" where
  "local_end c = (is_alnum c \<or> c = 0x5F \<or> c = 0x2B \<or> c = 0x2D)"

definition label_char :: "code_unit \<Rightarrow> bool" where
  "label_char c = (is_alnum c \<or> c = 0x2D)"

fun split_on :: "code_unit \<Rightarrow> jsstring \<Rightarrow> jsstring list" where
  "split_on sep [] = [[]]"
| "split_on sep (c # s) =
     (if c = sep then [] # split_on sep s
      else case split_on sep s of
             [] \<Rightarrow> [[c]]
           | part # parts \<Rightarrow> (c # part) # parts)"

fun two_dots :: "jsstring \<Rightarrow> bool" where
  "two_dots (a # b # s) = ((a = 0x2E \<and> b = 0x2E) \<or> two_dots (b # s))"
| "two_dots s = False"

definition zod_local :: "jsstring \<Rightarrow> bool" where
  "zod_local l = (l \<noteq> [] \<and> list_all local_char (butlast l) \<and> local_end (last l))"

definition zod_label :: "jsstring \<Rightarrow> bool" where
  "zod_label l = (case l of [] \<Rightarrow> False | c # cs \<Rightarrow> is_alnum c \<and> list_all label_char cs)"

definition zod_domain :: "jsstring \<Rightarrow> bool" where
  "zod_domain d =
     (case rev (split_on 0x2E d) of
        tld # l # ls \<Rightarrow> 2 \<le> length tld \<and> list_all is_letter tld \<and> list_all zod_label (l # ls)
      | _ \<Rightarrow> False)"

definition zod_email :: "jsstring \<Rightarrow> bool" where
  "zod_email s =
     (take 1 s \<noteq> [0x2E] \<and> \<not> two_dots s \<and>
      (case split_on 0x40 s of
         [l, d] \<Rightarrow> zod_local l \<and> zod_domain d
       | _ \<Rightarrow> False))"

subsection \<open>The component\<close>

text \<open>
  What the component does to the outside: a line on the console, a navigation, a
  toast, a call of \<open>loginMutationFn\<close> with the request body.
\<close>

record toast =
  title :: jsstring
  description :: jsval
  variant :: jsstring

datatype effect =
    ConsoleLog jsval
  | Navigate jsstring
  | Toast toast
  | Login form_values

text \<open>
  The state of one mounted component.  \<open>returnUrl\<close> and \<open>isPending\<close> are the
  constants of the last render: the value read from the search parameters, and
  what \<open>useMutation\<close> reported when the component rendered; the handlers of that
  render read these and nothing newer.  \<open>fieldValues\<close> and \<open>errors\<close> are kept by
  react-hook-form.  \<open>inFlight\<close> holds the request the mutation observer is
  tracking, if it has not settled; \<open>superseded\<close> holds earlier requests that have
  not settled either but that the observer dropped when \<open>mutate\<close> was called
  again: their settlement reaches no callback.
\<close>

record state =
  returnUrl :: "jsstring option"
  isPending :: bool
  fieldValues :: form_values
  errors :: "field_name \<Rightarrow> jsstring option"
  inFlight :: "form_values list"
  superseded :: "form_values list"

text \<open>
  \<^verbatim>\<open>
  onSuccess: (data) => {
    const user = data.user;
    console.log(user);
    const decodedUrl = returnUrl ? decodeURIComponent(returnUrl) : null;
    navigate(decodedUrl || `/workspace/${user.currentWorkspace}`);
  },
  \<close>
  The result is the effects in order and the exception that ended the callback,
  if one did.  A string is truthy when it is not empty; the template literal is
  evaluated only when \<open>decodedUrl\<close> is \<open>null\<close> or empty.
\<close>

definition workspace_route :: "jsval \<Rightarrow> js_error + jsstring" where
  "workspace_route user =
     (case get_prop user (js ''currentWorkspace'') of
        Inl e \<Rightarrow> Inl e
      | Inr w \<Rightarrow> Inr (js ''/workspace/'' @ ToString w))"

definition onSuccess :: "state \<Rightarrow> jsval \<Rightarrow> effect list \<times> js_error option" where
  "onSuccess st data =
     (case get_prop data (js ''user'') of
        Inl e \<Rightarrow> ([], Some e)
      | Inr user \<Rightarrow>
          (case (case returnUrl st of
                   None \<Rightarrow> Inr None
                 | Some r \<Rightarrow> if r = [] then Inr None
                            else (case decodeURIComponent r of
                                    Inl e \<Rightarrow> Inl e
                                  | Inr d \<Rightarrow> Inr (Some d))) of
             Inl e \<Rightarrow> ([ConsoleLog user], Some e)
           | Inr decodedUrl \<Rightarrow>
               (case (case decodedUrl of
                        None \<Rightarrow> workspace_route user
                      | Some d \<Rightarrow> if d = [] then workspace_route user else Inr d) of
                  Inl e \<Rightarrow> ([ConsoleLog user], Some e)
                | Inr target \<Rightarrow> ([ConsoleLog user, Navigate target], None))))"

text \<open>
  \<^verbatim>\<open>
  onError: (error) => {
    toast({
      title: "Error",
      description: error?.message,
      variant: "destructive",
    });
  },
  \<close>
\<close>

definition onError :: "jsval \<Rightarrow> effect list" where
  "onError error =
     [Toast \<lparr>title = js ''Error'',
             description = get_prop_opt error (js ''message''),
             variant = js ''destructive''\<rparr>]"

text \<open>
  \<open>mutate(values, {onSuccess, onError})\<close> of TanStack Query calls
  \<open>loginMutationFn(values)\<close>; the observer lets go of the mutation it was
  tracking and tracks the new one.  The component sees the new \<open>isPending\<close> only
  when it renders again.
\<close>

definition mutate :: "state \<Rightarrow> form_values \<Rightarrow> state \<times> effect list" where
  "mutate st values =
     (st\<lparr>superseded := superseded st @ inFlight st, inFlight := [values]\<rparr>,
      [Login values])"

text \<open>
  \<^verbatim>\<open>
  const onSubmit = (values: z.infer<typeof formSchema>) => {
    if (isPending) return;
    mutate(values, { ... });
  };
  \<close>
\<close>

definition onSubmit :: "state \<Rightarrow> form_values \<Rightarrow> state \<times> effect list" where
  "onSubmit st values = (if isPending st then (st, []) else mutate st values)"

text \<open>
  \<open>form.handleSubmit(onSubmit)\<close> of react-hook-form: it runs the resolver on the
  field values, stores the resolver's errors, and calls \<open>onSubmit\<close> with the
  resolver's values only when there is no error.
\<close>

definition handleSubmit :: "(jsstring \<Rightarrow> bool) \<Rightarrow> state \<Rightarrow> state \<times> effect list" where
  "handleSubmit emailRegex st =
     (case zodResolver emailRegex (fieldValues st) of
        Inl errs \<Rightarrow> (st\<lparr>errors := errs\<rparr>, [])
      | Inr values \<Rightarrow> onSubmit (st\<lparr>errors := (\<lambda>f. None)\<rparr>) values)"

text \<open>
  The events of the page.  The form is submitted: the handlers of the last render
  run.  The tracked request settles, with a response body or with a rejection
  reason: the callback given to \<open>mutate\<close> runs; a settlement with no tracked
  request cannot happen and changes nothing.  A superseded request settles:
  nothing runs.  The component renders again: \<open>isPending\<close> becomes what the
  observer reports, on exactly while the tracked request has not settled.
\<close>

datatype event = Submit | Resolved jsval | Rejected jsval | SupersededSettled | Render

definition settled :: "state \<Rightarrow> state" where
  "settled st = st\<lparr>inFlight := tl (inFlight st)\<rparr>"

fun step :: "(jsstring \<Rightarrow> bool) \<Rightarrow> state \<Rightarrow> event \<Rightarrow> state \<times> effect list" where
  "step emailRegex st Submit = handleSubmit emailRegex st"
| "step emailRegex st (Resolved data) =
     (if inFlight st = [] then (st, [])
      else (settled st, fst (onSuccess st data)))"
| "step emailRegex st (Rejected error) =
     (if inFlight st = [] then (st, [])
      else (settled st, onError error))"
| "step emailRegex st SupersededSettled = (st\<lparr>superseded := tl (superseded st)\<rparr>, [])"
| "step emailRegex st Render = (st\<lparr>isPending := (inFlight st \<noteq> [])\<rparr>, [])"

fun run :: "(jsstring \<Rightarrow> bool) \<Rightarrow> state \<Rightarrow> event list \<Rightarrow> state \<times> effect list" where
  "run emailRegex st [] = (st, [])"
| "run emailRegex st (e # es) =
     (case step emailRegex st e of
        (st', out) \<Rightarrow> (case run emailRegex st' es of (st'', out') \<Rightarrow> (st'', out @ out')))"

text \<open>
  The page as it is mounted, with \<open>r\<close> the value read for \<open>returnUrl\<close>:
  \<open>defaultValues\<close> of \<open>useForm\<close>, no error, nothing pending.  \<open>mounted_at\<close> is the
  page mounted at a location with the given search string.
\<close>

definition mounted :: "jsstring option \<Rightarrow> state" where
  "mounted r =
     \<lparr>returnUrl = r, isPending = False, fieldValues = \<lparr>email = js '''', password = js ''''\<rparr>,
      errors = (\<lambda>f. None), inFlight = [], superseded = []\<rparr>"

definition mounted_at :: "jsstring \<Rightarrow> state" where
  "mounted_at search = mounted (searchParams_get search (js ''returnUrl''))"

text \<open>The page after the user has typed an email and a password.\<close>

definition typed :: "jsstring option \<Rightarrow> jsstring \<Rightarrow> jsstring \<Rightarrow> state" where
  "typed r e p = (mounted r)\<lparr>fieldValues := \<lparr>email = e, password = p\<rparr>\<rparr>"


definition guarded :: "state \<Rightarrow> bool" where
  "guarded st =
     (superseded st = [] \<and> length (inFlight st) \<le> 1 \<and> (inFlight st \<noteq> [] \<longrightarrow> isPending st))"

fun rerendered :: "event list \<Rightarrow> bool" where
  "rerendered [] = True"
| "rerendered [e] = True"
| "rerendered (Submit # e # es) = (e = Render \<and> rerendered (e # es))"
| "rerendered (e # es) = rerendered es"


section \<open>Properties\<close>

subsection \<open>Decoding and trimming\<close>

lemma UTF16EncodeCodePoint_not_empty: "UTF16EncodeCodePoint v \<noteq> []"
  by (simp add: UTF16EncodeCodePoint_def)

lemma Decode_not_empty: "Decode (c # s) = Inr r \<Longrightarrow> r \<noteq> []"
  by (auto simp: append_result_def UTF16EncodeCodePoint_not_empty
           split: if_splits list.splits option.splits sum.splits prod.splits)

lemma decodeURIComponent_not_empty:
  assumes "decodeURIComponent s = Inr r" and "s \<noteq> []"
  shows "r \<noteq> []"
proof -
  from assms(2) obtain c t where "s = c # t"
    by (cases s) simp_all
  with assms(1) have "Decode (c # t) = Inr r"
    by (simp only: decodeURIComponent_def)
  then show ?thesis
    by (rule Decode_not_empty)
qed

lemma Decode_no_percent: "0x25 \<notin> set s \<Longrightarrow> Decode s = Inr s"
  by (induction s) (simp_all add: append_result_def)

lemma onSuccess_plain_return_url:
  assumes "returnUrl st = Some r" and "r \<noteq> []" and "0x25 \<notin> set r" and "\<not> nullish data"
  shows "onSuccess st data = ([ConsoleLog (own_prop data (js ''user'')), Navigate r], None)"
proof -
  from assms(3) have "decodeURIComponent r = Inr r"
    by (simp add: decodeURIComponent_def Decode_no_percent)
  with assms(1,2,4) show ?thesis
    by (simp add: onSuccess_def get_prop_def)
qed

lemma last_dropWhile_kept: "dropWhile P xs \<noteq> [] \<Longrightarrow> last (dropWhile P xs) = last xs"
  by (induction xs) (auto split: if_splits)

lemma hd_dropWhile_not: "dropWhile P xs \<noteq> [] \<Longrightarrow> \<not> P (hd (dropWhile P xs))"
  by (simp add: hd_dropWhile)

lemma trim_not_padded: "\<not> padded (trim s)"
proof (cases "trim s = []")
  case True
  then show ?thesis by (simp add: padded_def)
next
  case False
  define t where "t = dropWhile is_white_space s"
  define u where "u = dropWhile is_white_space (rev t)"
  have ts: "trim s = rev u" by (simp add: trim_def t_def u_def)
  with False have u: "u \<noteq> []" by simp
  then have t: "t \<noteq> []" by (auto simp: u_def)
  have "\<not> is_white_space (hd u)"
    using u unfolding u_def by (rule hd_dropWhile_not)
  then have l: "\<not> is_white_space (last (trim s))"
    using u by (simp add: ts last_rev)
  have "last u = last (rev t)"
    using u unfolding u_def by (rule last_dropWhile_kept)
  also have "\<dots> = hd t" using t by (simp add: last_rev)
  finally have "hd (trim s) = hd t" using u by (simp add: ts hd_rev)
  moreover have "\<not> is_white_space (hd t)"
    using t unfolding t_def by (rule hd_dropWhile_not)
  ultimately show ?thesis using l by (simp add: padded_def)
qed

subsection \<open>The schema and the resolver\<close>

lemma zod_string_email:
  "zod_string re (formSchema Email) e =
     ((if re (trim e) then [] else [js ''Invalid email address'']) @
      (if trim e = [] then [js ''Workspace name is required''] else []), trim e)"
  by (simp add: formSchema_def)

lemma zod_string_password:
  "zod_string re (formSchema Password) p =
     ((if trim p = [] then [js ''Password is required''] else []), trim p)"
  by (simp add: formSchema_def)

lemma zodResolver_valid:
  "re (trim (email v)) \<Longrightarrow> trim (email v) \<noteq> [] \<Longrightarrow> trim (password v) \<noteq> [] \<Longrightarrow>
   zodResolver re v = Inr \<lparr>email = trim (email v), password = trim (password v)\<rparr>"
  by (simp add: zodResolver_def zod_string_email zod_string_password)

lemma zodResolver_invalid:
  "\<not> re (trim (email v)) \<or> trim (email v) = [] \<or> trim (password v) = [] \<Longrightarrow>
   zodResolver re v =
     Inl (\<lambda>f. case f of
                Email \<Rightarrow> if re (trim (email v))
                         then if trim (email v) = [] then Some (js ''Workspace name is required'') else None
                         else Some (js ''Invalid email address'')
              | Password \<Rightarrow> if trim (password v) = [] then Some (js ''Password is required'') else None)"
  by (auto simp: zodResolver_def zod_string_email zod_string_password first_issue_def fun_eq_iff
           split: field_name.splits)

subsection \<open>The handlers\<close>

lemma onSuccess_fallback:
  "returnUrl st = None \<or> returnUrl st = Some [] \<Longrightarrow>
   onSuccess st data =
     (case get_prop data (js ''user'') of
        Inl e \<Rightarrow> ([], Some e)
      | Inr user \<Rightarrow>
          (case workspace_route user of
             Inl e \<Rightarrow> ([ConsoleLog user], Some e)
           | Inr target \<Rightarrow> ([ConsoleLog user, Navigate target], None)))"
  by (auto simp: onSuccess_def split: sum.splits)

lemma get_prop_object:
  "get_prop (JObject obj) k = Inr (case obj k of None \<Rightarrow> JUndefined | Some x \<Rightarrow> x)"
  by (simp add: get_prop_def nullish_def own_prop_def)


lemma handleSubmit_cases:
  "handleSubmit re st =
     (if re (trim (email (fieldValues st))) \<and> trim (email (fieldValues st)) \<noteq> []
         \<and> trim (password (fieldValues st)) \<noteq> []
      then onSubmit (st\<lparr>errors := (\<lambda>f. None)\<rparr>)
             \<lparr>email = trim (email (fieldValues st)), password = trim (password (fieldValues st))\<rparr>
      else (st\<lparr>errors := (\<lambda>f. case f of
                Email \<Rightarrow> if re (trim (email (fieldValues st)))
                         then if trim (email (fieldValues st)) = []
                              then Some (js ''Workspace name is required'') else None
                         else Some (js ''Invalid email address'')
              | Password \<Rightarrow> if trim (password (fieldValues st)) = []
                            then Some (js ''Password is required'') else None)\<rparr>, []))"
proof (cases "re (trim (email (fieldValues st))) \<and> trim (email (fieldValues st)) \<noteq> []
         \<and> trim (password (fieldValues st)) \<noteq> []")
  case True
  then show ?thesis
    by (simp add: handleSubmit_def zodResolver_valid)
next
  case False
  then have "\<not> re (trim (email (fieldValues st))) \<or> trim (email (fieldValues st)) = []
      \<or> trim (password (fieldValues st)) = []"
    by blast
  then have "zodResolver re (fieldValues st) =
     Inl (\<lambda>f. case f of
                Email \<Rightarrow> if re (trim (email (fieldValues st)))
                         then if trim (email (fieldValues st)) = []
                              then Some (js ''Workspace name is required'') else None
                         else Some (js ''Invalid email address'')
              | Password \<Rightarrow> if trim (password (fieldValues st)) = []
                            then Some (js ''Password is required'') else None)"
    by (rule zodResolver_invalid [of re "fieldValues st"])
  with False show ?thesis
    by (auto simp: handleSubmit_def)
qed

lemma submit_sent:
  assumes "snd (step re st Submit) \<noteq> []"
  shows "\<exists>v. handleSubmit re st =
           (st\<lparr>errors := (\<lambda>f. None), superseded := superseded st @ inFlight st, inFlight := [v]\<rparr>,
            [Login v])"
  using assms
  by (auto simp: handleSubmit_cases onSubmit_def mutate_def split: if_splits)

lemma handleSubmit_frame:
  "fieldValues (fst (handleSubmit re st)) = fieldValues st
   \<and> returnUrl (fst (handleSubmit re st)) = returnUrl st"
  by (simp add: handleSubmit_cases onSubmit_def mutate_def)




lemma render_guarded:
  assumes "superseded st = []" and "length (inFlight st) \<le> 1"
  shows "guarded (fst (step re st Render))"
  using assms by (simp add: guarded_def)


lemma rerendered_Submit: "rerendered (Submit # e # es) \<Longrightarrow> e = Render"
  by simp



lemma onSuccess_no_Login: "Login v \<notin> set (fst (onSuccess st data))"
  by (simp add: onSuccess_def split: sum.splits option.splits)

lemma onError_no_Login: "Login v \<notin> set (onError error)"
  by (simp add: onError_def)

lemma message_of_object:
  "obj (js ''message'') = Some m \<Longrightarrow> get_prop_opt (JObject obj) (js ''message'') = m"
  by (simp add: get_prop_opt_def nullish_def own_prop_def)

subsection \<open>Worked inputs\<close>

lemma return_url_example:
  "onSuccess (mounted_at (js ''?returnUrl=%2Fprojects%2F5''))
     (JObject [js ''user'' \<mapsto> JObject [js ''currentWorkspace'' \<mapsto> JString (js ''w1'')]]) =
     ([ConsoleLog (JObject [js ''currentWorkspace'' \<mapsto> JString (js ''w1'')]),
       Navigate (js ''/projects/5'')], None)"
proof -
  have g: "searchParams_get (js ''?returnUrl=%2Fprojects%2F5'') (js ''returnUrl'') =
             Some (js ''/projects/5'')"
    by (simp add: searchParams_get_def URLSearchParams_def js_def form_decode_def utf8_encode_def
          is_surrogate_def ParseHexOctet_def hex_digit_def UTF16EncodeCodePoint_def)
  have n: "js ''/projects/5'' \<noteq> []" "0x25 \<notin> set (js ''/projects/5'')"
    by (simp_all add: js_def)
  have o: "\<not> nullish (JObject [js ''user'' \<mapsto> JObject [js ''currentWorkspace'' \<mapsto> JString (js ''w1'')]])"
    by (simp add: nullish_def)
  have r: "returnUrl (mounted_at (js ''?returnUrl=%2Fprojects%2F5'')) = Some (js ''/projects/5'')"
    by (simp add: mounted_at_def mounted_def g)
  from onSuccess_plain_return_url [OF r n o] show ?thesis
    by (simp add: own_prop_def)
qed

lemma trim_example: "trim (js ''a@b.co'') = js ''a@b.co''" "trim (js '' a@b.co'') = js ''a@b.co''"
  "trim (js ''secret'') = js ''secret''"
  by (simp_all add: trim_def js_def is_white_space_def)

lemma zod_email_example: "zod_email (js ''a@b.co'')"
  by (simp add: zod_email_def js_def zod_local_def zod_domain_def zod_label_def local_char_def local_end_def label_char_def is_alnum_def is_letter_def)

lemma zod_email_padded: "\<not> zod_email (js '' a@b.co'')"
  by (simp add: zod_email_def js_def zod_local_def zod_domain_def zod_label_def local_char_def local_end_def label_char_def is_alnum_def is_letter_def)

lemma trim_padded_example:
  "trim (js ''  a@b.co '') = js ''a@b.co''" "trim (js '' secret '') = js ''secret''"
  by (simp_all add: trim_def js_def is_white_space_def)

lemma typed_simps:
  "returnUrl (typed r e p) = r" "isPending (typed r e p) = False"
  "fieldValues (typed r e p) = \<lparr>email = e, password = p\<rparr>"
  "errors (typed r e p) = (\<lambda>f. None)" "inFlight (typed r e p) = []"
  "superseded (typed r e p) = []"
  by (simp_all add: typed_def mounted_def)

lemma submit_example:
  "handleSubmit zod_email (typed None (js ''a@b.co'') (js ''secret'')) =
     ((typed None (js ''a@b.co'') (js ''secret''))
        \<lparr>inFlight := [\<lparr>email = js ''a@b.co'', password = js ''secret''\<rparr>]\<rparr>,
      [Login \<lparr>email = js ''a@b.co'', password = js ''secret''\<rparr>])"
proof -
  have "js ''a@b.co'' \<noteq> []" "js ''secret'' \<noteq> []"
    by (simp_all add: js_def)
  then show ?thesis
    by (simp add: handleSubmit_cases typed_simps trim_example zod_email_example onSubmit_def
          mutate_def)
qed


section \<open>The claims\<close>

subsection \<open>Navigation after a successful login\<close>

text \<open>
  C1.  When the response carries a user object whose \<open>currentWorkspace\<close> is the
  string \<open>w\<close> and the page has no \<open>returnUrl\<close> parameter, the success callback logs
  the user and navigates to exactly \<open>/workspace/\<close> followed by \<open>w\<close>, and raises
  nothing.
\<close>

theorem C1_default_workspace_route:
  assumes "returnUrl st = None"
    and "resp (js ''user'') = Some (JObject user)"
    and "user (js ''currentWorkspace'') = Some (JString w)"
  shows "onSuccess st (JObject resp) =
           ([ConsoleLog (JObject user), Navigate (js ''/workspace/'' @ w)], None)"
proof -
  from assms(1) have "returnUrl st = None \<or> returnUrl st = Some []" by simp
  from onSuccess_fallback [OF this] assms(2,3) show ?thesis
    by (simp add: get_prop_object workspace_route_def)
qed

theorem C1_default_workspace_route_witness:
  "returnUrl (mounted None) = None \<and>
   onSuccess (mounted None)
     (JObject [js ''user'' \<mapsto> JObject [js ''currentWorkspace'' \<mapsto> JString (js ''w1'')]]) =
     ([ConsoleLog (JObject [js ''currentWorkspace'' \<mapsto> JString (js ''w1'')]),
       Navigate (js ''/workspace/w1'')], None)"
  using C1_default_workspace_route [of "mounted None"
      "[js ''user'' \<mapsto> JObject [js ''currentWorkspace'' \<mapsto> JString (js ''w1'')]]"
      "[js ''currentWorkspace'' \<mapsto> JString (js ''w1'')]" "js ''w1''"]
  by (simp add: mounted_def js_def)

text \<open>
  C2.  The claim is about the \<open>returnUrl\<close> query parameter, and the code does not
  do what it says: \<open>searchParams.get\<close> has already percent-decoded the parameter
  when \<open>onSuccess\<close> calls \<open>decodeURIComponent\<close> on it, so the value is decoded
  twice.  At the location \<open>?returnUrl=100%25\<close> the parameter decodes to \<open>100%\<close>;
  the second decoding raises a URIError and nothing is navigated to.  At
  \<open>?returnUrl=%2Fa%2520b\<close> the parameter decodes to \<open>/a%20b\<close>, and the page
  navigates to \<open>/a b\<close>.
\<close>

theorem C2_return_url_decoded_twice:
  "searchParams_get (js ''?returnUrl=100%25'') (js ''returnUrl'') = Some (js ''100%'') \<and>
   onSuccess (mounted_at (js ''?returnUrl=100%25''))
     (JObject [js ''user'' \<mapsto> JObject [js ''currentWorkspace'' \<mapsto> JString (js ''w1'')]]) =
     ([ConsoleLog (JObject [js ''currentWorkspace'' \<mapsto> JString (js ''w1'')])], Some URIError) \<and>
   searchParams_get (js ''?returnUrl=%2Fa%2520b'') (js ''returnUrl'') = Some (js ''/a%20b'') \<and>
   onSuccess (mounted_at (js ''?returnUrl=%2Fa%2520b''))
     (JObject [js ''user'' \<mapsto> JObject [js ''currentWorkspace'' \<mapsto> JString (js ''w1'')]]) =
     ([ConsoleLog (JObject [js ''currentWorkspace'' \<mapsto> JString (js ''w1'')]),
       Navigate (js ''/a b'')], None)"
proof -
  have g1: "searchParams_get (js ''?returnUrl=100%25'') (js ''returnUrl'') = Some (js ''100%'')"
    by (simp add: searchParams_get_def URLSearchParams_def js_def form_decode_def utf8_encode_def
          is_surrogate_def ParseHexOctet_def hex_digit_def UTF16EncodeCodePoint_def)
  have g2: "searchParams_get (js ''?returnUrl=%2Fa%2520b'') (js ''returnUrl'') = Some (js ''/a%20b'')"
    by (simp add: searchParams_get_def URLSearchParams_def js_def form_decode_def utf8_encode_def
          is_surrogate_def ParseHexOctet_def hex_digit_def UTF16EncodeCodePoint_def)
  have d1: "decodeURIComponent (js ''100%'') = Inl URIError"
    by (simp add: decodeURIComponent_def js_def append_result_def)
  have d2: "decodeURIComponent (js ''/a%20b'') = Inr (js ''/a b'')"
    by (simp add: decodeURIComponent_def js_def ParseHexOctet_def hex_digit_def leading_ones_def
          append_result_def)
  have n: "js ''100%'' \<noteq> []" "js ''/a%20b'' \<noteq> []" "js ''/a b'' \<noteq> []"
    by (simp_all add: js_def)
  have u: "get_prop (JObject [js ''user'' \<mapsto> JObject [js ''currentWorkspace'' \<mapsto> JString (js ''w1'')]])
             (js ''user'') = Inr (JObject [js ''currentWorkspace'' \<mapsto> JString (js ''w1'')])"
    by (simp add: get_prop_object)
  from g1 g2 d1 d2 n u show ?thesis
    by (simp add: onSuccess_def mounted_at_def mounted_def)
qed

subsection \<open>Submission\<close>




text \<open>
  C4, as stated, fails for the email: the schema trims before it matches.  The
  raw field value \<open>" a@b.co"\<close> does not match the address pattern, yet the form
  passes validation and the request is sent (with the trimmed address).
\<close>

theorem C4_padded_email_counterexample:
  "\<not> zod_email (email (fieldValues (typed None (js '' a@b.co'') (js ''secret'')))) \<and>
   snd (handleSubmit zod_email (typed None (js '' a@b.co'') (js ''secret''))) =
     [Login \<lparr>email = js ''a@b.co'', password = js ''secret''\<rparr>]"
proof -
  have "js ''a@b.co'' \<noteq> []" "js ''secret'' \<noteq> []"
    by (simp_all add: js_def)
  then show ?thesis
    by (simp add: handleSubmit_cases typed_simps trim_example zod_email_example zod_email_padded
          onSubmit_def mutate_def)
qed

text \<open>
  C4, amended.  When the email is empty after trimming, or its trimmed value does
  not match the address pattern, or the password is empty after trimming,
  submitting the form issues no request and leaves the mutation untouched; the
  email field then carries the message of its first issue, and an empty password
  carries \<open>Password is required\<close>.  The statement holds for every address
  pattern \<open>re\<close>.
\<close>

theorem C4_validation_blocks_submission:
  assumes "trim (email (fieldValues st)) = [] \<or> \<not> re (trim (email (fieldValues st)))
           \<or> trim (password (fieldValues st)) = []"
  shows "snd (handleSubmit re st) = [] \<and>
         inFlight (fst (handleSubmit re st)) = inFlight st \<and>
         isPending (fst (handleSubmit re st)) = isPending st \<and>
         superseded (fst (handleSubmit re st)) = superseded st \<and>
         (trim (email (fieldValues st)) = [] \<or> \<not> re (trim (email (fieldValues st))) \<longrightarrow>
            errors (fst (handleSubmit re st)) Email =
              Some (if re (trim (email (fieldValues st))) then js ''Workspace name is required''
                    else js ''Invalid email address'')) \<and>
         (trim (password (fieldValues st)) = [] \<longrightarrow>
            errors (fst (handleSubmit re st)) Password = Some (js ''Password is required''))"
  using assms by (auto simp: handleSubmit_cases)

theorem C4_validation_blocks_submission_witness:
  "trim (email (fieldValues (typed None (js '''') (js '' '')))) = [] \<and>
   trim (password (fieldValues (typed None (js '''') (js '' '')))) = [] \<and>
   snd (handleSubmit zod_email (typed None (js '''') (js '' ''))) = [] \<and>
   errors (fst (handleSubmit zod_email (typed None (js '''') (js '' '')))) Email =
     Some (js ''Invalid email address'') \<and>
   errors (fst (handleSubmit zod_email (typed None (js '''') (js '' '')))) Password =
     Some (js ''Password is required'')"
proof -
  have t: "trim (email (fieldValues (typed None (js '''') (js '' '')))) = []"
    by (simp add: typed_simps js_def trim_def)
  have p: "trim (password (fieldValues (typed None (js '''') (js '' '')))) = []"
    by (simp add: typed_simps js_def trim_def is_white_space_def)
  have z: "\<not> zod_email []"
    by (simp add: zod_email_def)
  from t p z C4_validation_blocks_submission [of "typed None (js '''') (js '' '')" zod_email]
  show ?thesis by simp
qed

subsection \<open>A rejected request\<close>

text \<open>
  C5.  Whatever the rejection reason is, settling the request in flight with a
  rejection has one effect: a toast titled \<open>Error\<close> of variant \<open>destructive\<close>
  whose description is \<open>error?.message\<close>.  When the reason is an object with a
  \<open>message\<close> field, the description is that field's value, unchanged.
\<close>

theorem C5_rejection_toast:
  assumes "inFlight st \<noteq> []"
  shows "snd (step re st (Rejected error)) =
           [Toast \<lparr>title = js ''Error'',
                   description = get_prop_opt error (js ''message''),
                   variant = js ''destructive''\<rparr>] \<and>
         (error = JObject obj \<and> obj (js ''message'') = Some m \<longrightarrow>
            snd (step re st (Rejected error)) =
              [Toast \<lparr>title = js ''Error'', description = m, variant = js ''destructive''\<rparr>])"
  using assms by (auto simp: onError_def message_of_object)

theorem C5_rejection_toast_witness:
  "inFlight (fst (handleSubmit zod_email (typed None (js ''a@b.co'') (js ''secret'')))) \<noteq> [] \<and>
   snd (step zod_email (fst (handleSubmit zod_email (typed None (js ''a@b.co'') (js ''secret''))))
          (Rejected (JObject [js ''message'' \<mapsto> JString (js ''Invalid credentials'')]))) =
     [Toast \<lparr>title = js ''Error'', description = JString (js ''Invalid credentials''),
             variant = js ''destructive''\<rparr>]"
proof -
  have p: "inFlight (fst (handleSubmit zod_email (typed None (js ''a@b.co'') (js ''secret'')))) \<noteq> []"
    by (simp add: submit_example)
  from C5_rejection_toast [OF p, of zod_email
      "JObject [js ''message'' \<mapsto> JString (js ''Invalid credentials'')]"
      "[js ''message'' \<mapsto> JString (js ''Invalid credentials'')]"
      "JString (js ''Invalid credentials'')"] p
  show ?thesis by (simp add: message_of_object)
qed

text \<open>
  C6.  A rejection leaves the field values of the form as they are, and after a
  submission followed by its rejection the fields hold what they held when the
  form was submitted.
\<close>

theorem C6_rejection_keeps_fields:
  "fieldValues (fst (step re st (Rejected error))) = fieldValues st \<and>
   fieldValues (fst (run re st [Submit, Rejected error])) = fieldValues st"
proof -
  have r: "fieldValues (fst (step re s (Rejected error))) = fieldValues s" for s
    by (simp add: settled_def)
  have "fst (run re st [Submit, Rejected error]) =
          fst (step re (fst (handleSubmit re st)) (Rejected error))"
    by (simp split: prod.splits)
  with r [of "fst (handleSubmit re st)"] r [of st] handleSubmit_frame [of re st]
  show ?thesis by simp
qed

theorem C6_rejection_keeps_fields_witness:
  "fieldValues (fst (run zod_email (typed None (js ''a@b.co'') (js ''secret''))
      [Submit, Rejected (JObject [js ''message'' \<mapsto> JString (js ''Invalid credentials'')])])) =
   \<lparr>email = js ''a@b.co'', password = js ''secret''\<rparr>"
  using C6_rejection_keeps_fields [of zod_email "typed None (js ''a@b.co'') (js ''secret'')"
      "JObject [js ''message'' \<mapsto> JString (js ''Invalid credentials'')]"]
  by (simp only: typed_simps)

text \<open>
  C7, as stated, fails: after a submission is rejected with the message
  \<open>Invalid credentials\<close>, neither field of the form carries an inline error; the
  message went to a toast.
\<close>

theorem C7_no_inline_error_counterexample:
  "errors (fst (run zod_email (typed None (js ''a@b.co'') (js ''secret''))
      [Submit, Rejected (JObject [js ''message'' \<mapsto> JString (js ''Invalid credentials'')])])) Email = None \<and>
   errors (fst (run zod_email (typed None (js ''a@b.co'') (js ''secret''))
      [Submit, Rejected (JObject [js ''message'' \<mapsto> JString (js ''Invalid credentials'')])])) Password = None \<and>
   snd (run zod_email (typed None (js ''a@b.co'') (js ''secret''))
      [Submit, Rejected (JObject [js ''message'' \<mapsto> JString (js ''Invalid credentials'')])]) =
     [Login \<lparr>email = js ''a@b.co'', password = js ''secret''\<rparr>,
      Toast \<lparr>title = js ''Error'', description = JString (js ''Invalid credentials''),
             variant = js ''destructive''\<rparr>]"
  by (simp add: submit_example settled_def typed_simps onError_def message_of_object)

text \<open>
  C7, amended.  After a submission that sent a request is rejected, no field of
  the form carries an inline error, and the effects of the two events are the
  request and then one toast whose description is \<open>error?.message\<close>.  A rejection
  never changes the form's inline errors.
\<close>

theorem C7_rejection_is_a_toast:
  assumes "snd (step re st Submit) \<noteq> []"
  shows "errors (fst (run re st [Submit, Rejected error])) = (\<lambda>f. None) \<and>
         snd (run re st [Submit, Rejected error]) =
           snd (step re st Submit) @
           [Toast \<lparr>title = js ''Error'',
                   description = get_prop_opt error (js ''message''),
                   variant = js ''destructive''\<rparr>] \<and>
         errors (fst (step re st (Rejected error))) = errors st"
proof -
  from submit_sent [OF assms] obtain v where
    h: "handleSubmit re st =
          (st\<lparr>errors := (\<lambda>f. None), superseded := superseded st @ inFlight st,
              inFlight := [v]\<rparr>,
           [Login v])"
    by blast
  have "errors (fst (step re st (Rejected error))) = errors st"
    by (simp add: settled_def)
  with h show ?thesis
    by (simp add: settled_def onError_def)
qed

theorem C7_rejection_is_a_toast_witness:
  "snd (step zod_email (typed None (js ''a@b.co'') (js ''secret'')) Submit) \<noteq> [] \<and>
   errors (fst (run zod_email (typed None (js ''a@b.co'') (js ''secret''))
      [Submit, Rejected (JObject [js ''message'' \<mapsto> JString (js ''Invalid credentials'')])])) =
     (\<lambda>f. None) \<and>
   snd (run zod_email (typed None (js ''a@b.co'') (js ''secret''))
      [Submit, Rejected (JObject [js ''message'' \<mapsto> JString (js ''Invalid credentials'')])]) =
     [Login \<lparr>email = js ''a@b.co'', password = js ''secret''\<rparr>,
      Toast \<lparr>title = js ''Error'', description = JString (js ''Invalid credentials''),
             variant = js ''destructive''\<rparr>]"
proof -
  have s: "snd (step zod_email (typed None (js ''a@b.co'') (js ''secret'')) Submit) \<noteq> []"
    by (simp add: submit_example)
  have m: "get_prop_opt (JObject [js ''message'' \<mapsto> JString (js ''Invalid credentials'')])
             (js ''message'') = JString (js ''Invalid credentials'')"
    by (simp add: message_of_object)
  have e: "snd (step zod_email (typed None (js ''a@b.co'') (js ''secret'')) Submit) =
             [Login \<lparr>email = js ''a@b.co'', password = js ''secret''\<rparr>]"
    by (simp add: submit_example)
  from C7_rejection_is_a_toast [OF s,
      of "JObject [js ''message'' \<mapsto> JString (js ''Invalid credentials'')]"] s
  show ?thesis
    by (simp only: m e append.simps) simp
qed

subsection \<open>The request body\<close>

text \<open>
  C8.  Every request comes from a submission, and its body holds the trimmed
  email and the trimmed password of the form: neither begins or ends with white
  space.
\<close>

theorem C8_request_is_trimmed:
  assumes "Login v \<in> set (snd (step re st e))"
  shows "e = Submit \<and>
         v = \<lparr>email = trim (email (fieldValues st)), password = trim (password (fieldValues st))\<rparr> \<and>
         \<not> padded (email v) \<and> \<not> padded (password v)"
proof (cases e)
  case Submit
  with assms have "v = \<lparr>email = trim (email (fieldValues st)),
      password = trim (password (fieldValues st))\<rparr>"
    by (simp add: handleSubmit_cases onSubmit_def mutate_def split: if_splits)
  with Submit show ?thesis
    by (simp add: trim_not_padded)
next
  case (Resolved data)
  with assms show ?thesis
    by (simp add: onSuccess_no_Login split: if_splits)
next
  case (Rejected error)
  with assms show ?thesis
    by (simp add: onError_no_Login split: if_splits)
next
  case SupersededSettled
  with assms show ?thesis by simp
next
  case Render
  with assms show ?thesis by simp
qed

theorem C8_request_is_trimmed_witness:
  "Login \<lparr>email = js ''a@b.co'', password = js ''secret''\<rparr>
     \<in> set (snd (step zod_email (typed None (js ''  a@b.co '') (js '' secret '')) Submit)) \<and>
   \<not> padded (js ''a@b.co'') \<and> \<not> padded (js ''secret'')"
proof -
  have "js ''a@b.co'' \<noteq> []" "js ''secret'' \<noteq> []"
    by (simp_all add: js_def)
  then have l: "Login \<lparr>email = js ''a@b.co'', password = js ''secret''\<rparr>
     \<in> set (snd (step zod_email (typed None (js ''  a@b.co '') (js '' secret '')) Submit))"
    by (simp add: handleSubmit_cases typed_simps trim_padded_example zod_email_example
          onSubmit_def mutate_def)
  from C8_request_is_trimmed [OF l]
  have "\<not> padded (email \<lparr>email = js ''a@b.co'', password = js ''secret''\<rparr>) \<and>
        \<not> padded (password \<lparr>email = js ''a@b.co'', password = js ''secret''\<rparr>)"
    by blast
  with l show ?thesis by simp
qed

subsection \<open>Fallbacks of the success callback\<close>

text \<open>
  C9.  An empty \<open>returnUrl\<close> behaves as an absent one: the success callback does
  what it does without the parameter, and with a user whose \<open>currentWorkspace\<close>
  is the string \<open>w\<close> it navigates to \<open>/workspace/\<close> followed by \<open>w\<close>.
\<close>

theorem C9_empty_return_url:
  assumes "returnUrl st = Some []"
  shows "onSuccess st data = onSuccess (st\<lparr>returnUrl := None\<rparr>) data \<and>
         (resp (js ''user'') = Some (JObject user) \<and>
          user (js ''currentWorkspace'') = Some (JString w) \<longrightarrow>
            onSuccess st (JObject resp) =
              ([ConsoleLog (JObject user), Navigate (js ''/workspace/'' @ w)], None))"
proof -
  from assms have a: "returnUrl st = None \<or> returnUrl st = Some []" by simp
  have b: "returnUrl (st\<lparr>returnUrl := None\<rparr>) = None \<or> returnUrl (st\<lparr>returnUrl := None\<rparr>) = Some []"
    by simp
  have "onSuccess st data = onSuccess (st\<lparr>returnUrl := None\<rparr>) data"
    by (simp only: onSuccess_fallback [OF a] onSuccess_fallback [OF b])
  moreover have "onSuccess st (JObject resp) =
      ([ConsoleLog (JObject user), Navigate (js ''/workspace/'' @ w)], None)"
    if "resp (js ''user'') = Some (JObject user)"
      and "user (js ''currentWorkspace'') = Some (JString w)"
    using that onSuccess_fallback [OF a, of "JObject resp"]
    by (simp add: get_prop_object workspace_route_def)
  ultimately show ?thesis by blast
qed

theorem C9_empty_return_url_witness:
  "returnUrl (mounted (Some (js ''''))) = Some [] \<and>
   onSuccess (mounted (Some (js '''')))
     (JObject [js ''user'' \<mapsto> JObject [js ''currentWorkspace'' \<mapsto> JString (js ''w1'')]]) =
     ([ConsoleLog (JObject [js ''currentWorkspace'' \<mapsto> JString (js ''w1'')]),
       Navigate (js ''/workspace/w1'')], None)"
proof -
  have r: "returnUrl (mounted (Some (js ''''))) = Some []"
    by (simp add: mounted_def js_def)
  from C9_empty_return_url [OF r, of JNull
      "[js ''user'' \<mapsto> JObject [js ''currentWorkspace'' \<mapsto> JString (js ''w1'')]]"
      "[js ''currentWorkspace'' \<mapsto> JString (js ''w1'')]" "js ''w1''"]
  have "onSuccess (mounted (Some (js '''')))
     (JObject [js ''user'' \<mapsto> JObject [js ''currentWorkspace'' \<mapsto> JString (js ''w1'')]]) =
     ([ConsoleLog (JObject [js ''currentWorkspace'' \<mapsto> JString (js ''w1'')]),
       Navigate (js ''/workspace/w1'')], None)"
    by (simp add: js_def)
  with r show ?thesis by simp
qed

text \<open>
  C10.  With no \<open>returnUrl\<close> and a user object that has no \<open>currentWorkspace\<close>
  field, the success callback raises nothing and navigates to
  \<open>/workspace/undefined\<close>.
\<close>

theorem C10_missing_workspace:
  assumes "returnUrl st = None"
    and "resp (js ''user'') = Some (JObject user)"
    and "user (js ''currentWorkspace'') = None"
  shows "onSuccess st (JObject resp) =
           ([ConsoleLog (JObject user), Navigate (js ''/workspace/undefined'')], None)"
proof -
  from assms(1) have "returnUrl st = None \<or> returnUrl st = Some []" by simp
  from onSuccess_fallback [OF this] assms(2,3) show ?thesis
    by (simp add: get_prop_object workspace_route_def js_def)
qed

theorem C10_missing_workspace_witness:
  "returnUrl (mounted None) = None \<and>
   onSuccess (mounted None) (JObject [js ''user'' \<mapsto> JObject [js ''_id'' \<mapsto> JString (js ''u1'')]]) =
     ([ConsoleLog (JObject [js ''_id'' \<mapsto> JString (js ''u1'')]),
       Navigate (js ''/workspace/undefined'')], None)"
  using C10_missing_workspace [of "mounted None"
      "[js ''user'' \<mapsto> JObject [js ''_id'' \<mapsto> JString (js ''u1'')]]"
      "[js ''_id'' \<mapsto> JString (js ''u1'')]"]
  by (simp add: mounted_def js_def)

end
